theory Spec2Isabelle
  imports Complex_Main "HOL-Library.Word"
begin

unbundle bit_operations_syntax

section \<open>Python values, exceptions and built-ins\<close>

text \<open>
  The monitor (\<^verbatim>\<open>mempool_monitor.py\<close>) is dynamically typed: configuration rules and feed
  messages are whatever \<^verbatim>\<open>json.load\<close> produced. The embedding keeps that: one datatype of
  JSON-shaped Python values, one datatype of the exceptions the code can meet, and every
  function that can raise returns a sum whose left injection is the exception.

  A Python \<^verbatim>\<open>str\<close> is represented by its UTF-8 encoding as a \<open>string\<close> (so
  \<^verbatim>\<open>s.encode("utf-8")\<close> is a change of type and \<^verbatim>\<open>b.decode("utf-8")\<close> is a validity
  check); the source never indexes a \<^verbatim>\<open>str\<close> nor takes its length, and substring
  tests agree on both representations. Lone surrogates are outside the model.
\<close>

datatype pyerror =
    ImportError | NameError | AttributeError | TypeError | ValueError | OverflowError
  | KeyError | StructError | UnicodeDecodeError | JSONDecodeError | OSError
  | Exception string

text \<open>
  A \<^verbatim>\<open>float\<close>: the real number a finite double denotes, the two infinities, or NaN.
  Only comparisons are taken on floats, and Python compares them exactly.
\<close>

datatype pyfloat = Fin real | PosInf | NegInf | NaN

fun float_eq :: "pyfloat \<Rightarrow> pyfloat \<Rightarrow> bool" where
  "float_eq (Fin a) (Fin b) = (a = b)"
| "float_eq PosInf PosInf = True"
| "float_eq NegInf NegInf = True"
| "float_eq _ _ = False"

fun float_lt :: "pyfloat \<Rightarrow> pyfloat \<Rightarrow> bool" where
  "float_lt (Fin a) (Fin b) = (a < b)"
| "float_lt (Fin a) PosInf = True"
| "float_lt NegInf (Fin b) = True"
| "float_lt NegInf PosInf = True"
| "float_lt _ _ = False"

definition float_le :: "pyfloat \<Rightarrow> pyfloat \<Rightarrow> bool" where
  "float_le a b = (float_lt a b \<or> float_eq a b)"

datatype pyval =
    PNone
  | PBool bool
  | PInt int
  | PFloat pyfloat
  | PStr string
  | PList "pyval list"
  | PDict "(string \<times> pyval) list"

text \<open>
  A \<^verbatim>\<open>dict\<close> is the list of its items in insertion order; its keys are distinct (that is
  what \<^verbatim>\<open>json.load\<close> builds). \<^verbatim>\<open>d.get(k)\<close> and \<^verbatim>\<open>d.get(k, default)\<close>:
\<close>

type_synonym pydict = "(string \<times> pyval) list"

definition dict_get :: "pydict \<Rightarrow> string \<Rightarrow> pyval" where
  "dict_get d k = (case map_of d k of None \<Rightarrow> PNone | Some v \<Rightarrow> v)"

definition dict_get_default :: "pydict \<Rightarrow> string \<Rightarrow> pyval \<Rightarrow> pyval" where
  "dict_get_default d k dflt = (case map_of d k of None \<Rightarrow> dflt | Some v \<Rightarrow> v)"

text \<open>Truth value testing (\<^verbatim>\<open>if value\<close>, \<^verbatim>\<open>not path\<close>).\<close>

fun py_truthy :: "pyval \<Rightarrow> bool" where
  "py_truthy PNone = False"
| "py_truthy (PBool b) = b"
| "py_truthy (PInt i) = (i \<noteq> 0)"
| "py_truthy (PFloat f) = (f \<noteq> Fin 0)"
| "py_truthy (PStr s) = (s \<noteq> [])"
| "py_truthy (PList xs) = (xs \<noteq> [])"
| "py_truthy (PDict d) = (d \<noteq> [])"

text \<open>
  \<^verbatim>\<open>==\<close> on values: \<^verbatim>\<open>bool\<close>, \<^verbatim>\<open>int\<close> and \<^verbatim>\<open>float\<close> compare by numeric value
  (\<^verbatim>\<open>True == 1 == 1.0\<close>), lists elementwise, dicts as mappings whatever the order of
  their items.
\<close>

fun num_of :: "pyval \<Rightarrow> pyfloat option" where
  "num_of (PBool b) = Some (Fin (if b then 1 else 0))"
| "num_of (PInt i) = Some (Fin (of_int i))"
| "num_of (PFloat f) = Some f"
| "num_of _ = None"

fun py_eq :: "pyval \<Rightarrow> pyval \<Rightarrow> bool"
  and py_eq_list :: "pyval list \<Rightarrow> pyval list \<Rightarrow> bool"
  and py_eq_items :: "pydict \<Rightarrow> pydict \<Rightarrow> bool"
where
  "py_eq PNone b = (b = PNone)"
| "py_eq (PStr s) b = (case b of PStr t \<Rightarrow> s = t | _ \<Rightarrow> False)"
| "py_eq (PList xs) b = (case b of PList ys \<Rightarrow> py_eq_list xs ys | _ \<Rightarrow> False)"
| "py_eq (PDict d) b =
     (case b of PDict d' \<Rightarrow> length d = length d' \<and> py_eq_items d d' | _ \<Rightarrow> False)"
| "py_eq (PBool x) b =
     (case num_of b of Some y \<Rightarrow> float_eq (Fin (if x then 1 else 0)) y | None \<Rightarrow> False)"
| "py_eq (PInt i) b =
     (case num_of b of Some y \<Rightarrow> float_eq (Fin (of_int i)) y | None \<Rightarrow> False)"
| "py_eq (PFloat f) b =
     (case num_of b of Some y \<Rightarrow> float_eq f y | None \<Rightarrow> False)"
| "py_eq_list [] ys = (ys = [])"
| "py_eq_list (x # xs) ys =
     (case ys of [] \<Rightarrow> False | y # ys' \<Rightarrow> py_eq x y \<and> py_eq_list xs ys')"
| "py_eq_items [] d' = True"
| "py_eq_items ((k, v) # d) d' =
     ((case map_of d' k of None \<Rightarrow> False | Some w \<Rightarrow> py_eq v w) \<and> py_eq_items d d')"

text \<open>Decimal rendering of an \<^verbatim>\<open>int\<close>, as \<^verbatim>\<open>str\<close> gives it.\<close>

definition digit_char :: "nat \<Rightarrow> char" where
  "digit_char d = ''0123456789'' ! (d mod 10)"

function show_nat :: "nat \<Rightarrow> string" where
  "show_nat n = (if n < 10 then [digit_char n] else show_nat (n div 10) @ [digit_char n])"
  by pat_completeness auto
termination
  by (relation "measure id") auto

declare show_nat.simps [simp del]

definition show_int :: "int \<Rightarrow> string" where
  "show_int i = (if i < 0 then CHR ''-'' # show_nat (nat (- i)) else show_nat (nat i))"

text \<open>
  What the code takes from the interpreter and the standard library, and does not
  implement: \<^verbatim>\<open>repr\<close> of floats and containers (used by \<^verbatim>\<open>str\<close>), the conversions
  behind \<^verbatim>\<open>float(x)\<close>, and the \<^verbatim>\<open>json\<close> module. They are parameters of the model.
\<close>

record pyrt =
  rt_repr :: "pyval \<Rightarrow> string"
  rt_float_of_int :: "int \<Rightarrow> pyerror + pyfloat"
  rt_float_of_str :: "string \<Rightarrow> pyerror + pyfloat"
  rt_json_loads :: "string \<Rightarrow> pyerror + pyval"
  rt_json_dumps :: "pyval \<Rightarrow> pyerror + string"

text \<open>\<^verbatim>\<open>str(value)\<close>.\<close>

fun py_str :: "pyrt \<Rightarrow> pyval \<Rightarrow> string" where
  "py_str rt PNone = ''None''"
| "py_str rt (PBool b) = (if b then ''True'' else ''False'')"
| "py_str rt (PInt i) = show_int i"
| "py_str rt (PStr s) = s"
| "py_str rt v = rt_repr rt v"

text \<open>\<^verbatim>\<open>float(value)\<close>: a \<^verbatim>\<open>TypeError\<close> for anything that is neither a number nor a string.\<close>

fun py_float :: "pyrt \<Rightarrow> pyval \<Rightarrow> pyerror + pyfloat" where
  "py_float rt (PBool b) = Inr (Fin (if b then 1 else 0))"
| "py_float rt (PInt i) = rt_float_of_int rt i"
| "py_float rt (PFloat f) = Inr f"
| "py_float rt (PStr s) = rt_float_of_str rt s"
| "py_float rt _ = Inl TypeError"

text \<open>\<^verbatim>\<open>t in s\<close> for a string \<open>s\<close>: the substring test, a \<^verbatim>\<open>TypeError\<close> when \<open>t\<close> is not a string.\<close>

fun is_prefix :: "'a list \<Rightarrow> 'a list \<Rightarrow> bool" where
  "is_prefix [] s = True"
| "is_prefix (c # t) [] = False"
| "is_prefix (c # t) (d # s) = (c = d \<and> is_prefix t s)"

fun is_substring :: "'a list \<Rightarrow> 'a list \<Rightarrow> bool" where
  "is_substring t [] = (t = [])"
| "is_substring t (c # s) = (is_prefix t (c # s) \<or> is_substring t s)"

definition py_in_str :: "pyval \<Rightarrow> string \<Rightarrow> pyerror + bool" where
  "py_in_str t s = (case t of PStr t' \<Rightarrow> Inr (is_substring t' s) | _ \<Rightarrow> Inl TypeError)"

text \<open>\<^verbatim>\<open>path.split(".")\<close>.\<close>

fun split_dot :: "string \<Rightarrow> string list" where
  "split_dot [] = [[]]"
| "split_dot (c # cs) =
     (if c = CHR ''.'' then [] # split_dot cs
      else (case split_dot cs of [] \<Rightarrow> [[c]] | w # ws \<Rightarrow> (c # w) # ws))"

section \<open>RuleEngine: \<^verbatim>\<open>get_nested\<close> and \<^verbatim>\<open>evaluate_rule\<close>\<close>

text \<open>
  The loop of \<^verbatim>\<open>get_nested\<close> (lines 195-200): descend while the current value is a
  non-empty dict, give \<^verbatim>\<open>None\<close> as soon as it is not.
\<close>

fun descend :: "pyval \<Rightarrow> string list \<Rightarrow> pyval" where
  "descend val [] = val"
| "descend val (key # keys) =
     (case val of
        PDict d \<Rightarrow> (if py_truthy val then descend (dict_get d key) keys else PNone)
      | _ \<Rightarrow> PNone)"

text \<open>
  \<^verbatim>\<open>get_nested(obj, path)\<close>; \<open>path\<close> is \<^verbatim>\<open>rule.get("field", "")\<close>, any value: a falsy
  one returns \<open>obj\<close>, a truthy one that is not a string has no \<^verbatim>\<open>split\<close>.
\<close>

definition get_nested :: "pyval \<Rightarrow> pyval \<Rightarrow> pyerror + pyval" where
  "get_nested obj path =
     (if \<not> py_truthy path then Inr obj
      else (case path of
              PStr s \<Rightarrow> Inr (descend obj (split_dot s))
            | _ \<Rightarrow> Inl AttributeError))"

text \<open>
  A numeric comparison (lines 215-222): the left operand
  \<^verbatim>\<open>float(value) if value else 0\<close> is evaluated first, then \<^verbatim>\<open>float(target)\<close>.
\<close>

definition num_compare ::
  "pyrt \<Rightarrow> (pyfloat \<Rightarrow> pyfloat \<Rightarrow> bool) \<Rightarrow> pyval \<Rightarrow> pyval \<Rightarrow> pyerror + bool" where
  "num_compare rt cmp val target =
     (case (if py_truthy val then py_float rt val else Inr (Fin 0)) of
        Inl e \<Rightarrow> Inl e
      | Inr a \<Rightarrow> (case py_float rt target of Inl e \<Rightarrow> Inl e | Inr b \<Rightarrow> Inr (cmp a b)))"

definition evaluate_rule :: "pyrt \<Rightarrow> pydict \<Rightarrow> pyval \<Rightarrow> pyerror + bool" where
  "evaluate_rule rt rule event_data =
     (case get_nested event_data (dict_get_default rule ''field'' (PStr [])) of
        Inl e \<Rightarrow> Inl e
      | Inr val \<Rightarrow>
          (let op = dict_get_default rule ''operator'' (PStr ''=='');
               target = dict_get rule ''value''
           in if py_eq op (PStr ''exists'') then Inr (val \<noteq> PNone)
              else if py_eq op (PStr ''contains'')
                then py_in_str target (if py_truthy val then py_str rt val else [])
              else if py_eq op (PStr ''=='') then Inr (py_eq val target)
              else if py_eq op (PStr ''!='') then Inr (\<not> py_eq val target)
              else if py_eq op (PStr ''>'') then num_compare rt (\<lambda>a b. float_lt b a) val target
              else if py_eq op (PStr ''<'') then num_compare rt float_lt val target
              else if py_eq op (PStr ''>='') then num_compare rt (\<lambda>a b. float_le b a) val target
              else if py_eq op (PStr ''<='') then num_compare rt float_le val target
              else Inr False))"

section \<open>Bytes, \<^verbatim>\<open>struct\<close> and UTF-8\<close>

type_synonym byte = "8 word"

text \<open>Big-endian fields of \<^verbatim>\<open>struct.pack\<close> / \<^verbatim>\<open>struct.unpack\<close> with byte order \<^verbatim>\<open>!\<close>.\<close>

fun be_bytes :: "nat \<Rightarrow> nat \<Rightarrow> byte list" where
  "be_bytes 0 n = []"
| "be_bytes (Suc k) n = be_bytes k (n div 256) @ [of_nat (n mod 256)]"

definition be_nat :: "byte list \<Rightarrow> nat" where
  "be_nat bs = foldl (\<lambda>acc b. acc * 256 + unat b) 0 bs"

text \<open>
  One field of a format string: \<^verbatim>\<open>B\<close> (1 byte), \<^verbatim>\<open>H\<close> (2 bytes), \<^verbatim>\<open>Q\<close> (8 bytes), with
  the value to pack. A value out of the field's range is a \<^verbatim>\<open>struct.error\<close>.
\<close>

datatype field = B nat | H nat | Q nat

fun pack_field :: "field \<Rightarrow> pyerror + byte list" where
  "pack_field (B n) = (if n < 2 ^ 8 then Inr (be_bytes 1 n) else Inl StructError)"
| "pack_field (H n) = (if n < 2 ^ 16 then Inr (be_bytes 2 n) else Inl StructError)"
| "pack_field (Q n) = (if n < 2 ^ 64 then Inr (be_bytes 8 n) else Inl StructError)"

fun struct_pack :: "field list \<Rightarrow> pyerror + byte list" where
  "struct_pack [] = Inr []"
| "struct_pack (f # fs) =
     (case pack_field f of
        Inl e \<Rightarrow> Inl e
      | Inr bs \<Rightarrow> (case struct_pack fs of Inl e \<Rightarrow> Inl e | Inr rest \<Rightarrow> Inr (bs @ rest)))"

text \<open>\<^verbatim>\<open>struct.unpack("!H", b)[0]\<close> and \<^verbatim>\<open>struct.unpack("!Q", b)[0]\<close>: the buffer must have
  exactly the size of the field.\<close>

definition unpack_H :: "byte list \<Rightarrow> pyerror + nat" where
  "unpack_H bs = (if length bs = 2 then Inr (be_nat bs) else Inl StructError)"

definition unpack_Q :: "byte list \<Rightarrow> pyerror + nat" where
  "unpack_Q bs = (if length bs = 8 then Inr (be_nat bs) else Inl StructError)"

text \<open>
  \<^verbatim>\<open>data.encode("utf-8")\<close> and \<^verbatim>\<open>payload.decode("utf-8")\<close>. With a \<^verbatim>\<open>str\<close> held as its
  UTF-8 bytes, decoding accepts exactly the well-formed byte sequences (Unicode, table 3-7)
  and raises \<^verbatim>\<open>UnicodeDecodeError\<close> on any other.
\<close>

definition encode_utf8 :: "string \<Rightarrow> byte list" where
  "encode_utf8 s = map of_char s"

definition cont :: "byte \<Rightarrow> bool" where
  "cont b = (0x80 \<le> b \<and> b \<le> 0xBF)"

fun valid_utf8 :: "byte list \<Rightarrow> bool" where
  "valid_utf8 [] = True"
| "valid_utf8 (b0 # bs) =
     (if b0 \<le> 0x7F then valid_utf8 bs
      else if 0xC2 \<le> b0 \<and> b0 \<le> 0xDF then
        (case bs of b1 # r \<Rightarrow> cont b1 \<and> valid_utf8 r | _ \<Rightarrow> False)
      else if 0xE0 \<le> b0 \<and> b0 \<le> 0xEF then
        (case bs of
           b1 # b2 # r \<Rightarrow>
             (if b0 = 0xE0 then 0xA0 \<le> b1 \<and> b1 \<le> 0xBF
              else if b0 = 0xED then 0x80 \<le> b1 \<and> b1 \<le> 0x9F
              else cont b1) \<and> cont b2 \<and> valid_utf8 r
         | _ \<Rightarrow> False)
      else if 0xF0 \<le> b0 \<and> b0 \<le> 0xF4 then
        (case bs of
           b1 # b2 # b3 # r \<Rightarrow>
             (if b0 = 0xF0 then 0x90 \<le> b1 \<and> b1 \<le> 0xBF
              else if b0 = 0xF4 then 0x80 \<le> b1 \<and> b1 \<le> 0x8F
              else cont b1) \<and> cont b2 \<and> cont b3 \<and> valid_utf8 r
         | _ \<Rightarrow> False)
      else False)"

definition decode_utf8 :: "byte list \<Rightarrow> pyerror + string" where
  "decode_utf8 bs =
     (if valid_utf8 bs then Inr (map (\<lambda>b. char_of (unat b)) bs) else Inl UnicodeDecodeError)"

section \<open>The socket under a connection\<close>

text \<open>
  A connected stream socket, seen from the client: what the peer delivers, in the
  pieces in which \<^verbatim>\<open>recv\<close> will see it (a piece may also be an error the socket raises),
  and what the client has written. \<^verbatim>\<open>recv(n)\<close> returns at most \<open>n\<close> bytes of the next
  piece, and \<^verbatim>\<open>b""\<close> once the peer has closed. A size so large that a real socket refuses
  the call instead of reading is outside the model.
\<close>

datatype piece = Data "byte list" | Fault pyerror

record socket =
  incoming :: "piece list"
  sent :: "byte list"
  broken :: bool

definition sock_recv :: "nat \<Rightarrow> socket \<Rightarrow> (pyerror + byte list) \<times> socket" where
  "sock_recv n s =
     (case incoming s of
        [] \<Rightarrow> (Inr [], s)
      | Fault e # ps \<Rightarrow> (Inl e, s\<lparr>incoming := ps\<rparr>)
      | Data c # ps \<Rightarrow>
          (if length c \<le> n then (Inr c, s\<lparr>incoming := ps\<rparr>)
           else (Inr (take n c), s\<lparr>incoming := Data (drop n c) # ps\<rparr>)))"

definition sock_send :: "byte list \<Rightarrow> socket \<Rightarrow> (pyerror + unit) \<times> socket" where
  "sock_send bs s =
     (if broken s then (Inl OSError, s) else (Inr (), s\<lparr>sent := sent s @ bs\<rparr>))"

section \<open>FrameCodec and TransportHandshake: class \<^verbatim>\<open>SimpleWebSocket\<close>\<close>

text \<open>
  The object's attributes. \<open>host\<close>, \<open>port\<close>, \<open>path\<close> and \<open>is_ssl\<close> are created only by
  \<^verbatim>\<open>_parse_url\<close>; \<open>None\<close> stands for an attribute that does not exist yet.
\<close>

record simple_ws =
  url :: string
  sock :: "socket option"
  connected :: bool
  host :: "string option"
  port :: "nat option"
  path :: "string option"
  is_ssl :: "bool option"

definition new_ws :: "string \<Rightarrow> simple_ws" where
  "new_ws u = \<lparr>url = u, sock = None, connected = False,
               host = None, port = None, path = None, is_ssl = None\<rparr>"

text \<open>
  \<^verbatim>\<open>from urllib.parse import urlparse, parses\<close> (line 55): the import statement raises
  \<^verbatim>\<open>ImportError\<close> when the module does not define one of the names. The names below are
  the public ones of the standard library's \<^verbatim>\<open>urllib.parse\<close>; its private helpers are left
  out, and none of them is called \<^verbatim>\<open>parses\<close>.
\<close>

definition urllib_parse_names :: "string list" where
  "urllib_parse_names =
     [''urlparse'', ''urlunparse'', ''urljoin'', ''urldefrag'', ''urlsplit'', ''urlunsplit'',
      ''urlencode'', ''parse_qs'', ''parse_qsl'', ''quote'', ''quote_plus'',
      ''quote_from_bytes'', ''unquote'', ''unquote_plus'', ''unquote_to_bytes'',
      ''DefragResult'', ''ParseResult'', ''SplitResult'', ''DefragResultBytes'',
      ''ParseResultBytes'', ''SplitResultBytes'']"

definition import_from :: "string list \<Rightarrow> string list \<Rightarrow> pyerror + unit" where
  "import_from module_names names =
     (if list_all (\<lambda>n. n \<in> set module_names) names then Inr () else Inl ImportError)"

text \<open>
  \<^verbatim>\<open>_parse_url\<close> (lines 54-62). Were the import to pass, line 56 binds \<^verbatim>\<open>parsed_q\<close> and
  line 57 reads \<^verbatim>\<open>parsed\<close>, a name bound nowhere: \<^verbatim>\<open>NameError\<close>, before any attribute is
  assigned. No path through the method returns.
\<close>

definition parse_url :: "simple_ws \<Rightarrow> (pyerror + unit) \<times> simple_ws" where
  "parse_url ws =
     (case import_from urllib_parse_names [''urlparse'', ''parses''] of
        Inl e \<Rightarrow> (Inl e, ws)
      | Inr _ \<Rightarrow> (Inl NameError, ws))"

text \<open>
  The network, as \<^verbatim>\<open>connect\<close> meets it: opening a TCP (or TLS) connection to a host and
  port gives a socket or an error, and \<^verbatim>\<open>os.urandom\<close> with \<^verbatim>\<open>base64\<close> gives the key.
\<close>

record net =
  net_open :: "string \<Rightarrow> nat \<Rightarrow> bool \<Rightarrow> pyerror + socket"
  net_key :: string

definition crlf :: string where
  "crlf = [CHR 0x0D, CHR 0x0A]"

fun join :: "string \<Rightarrow> string list \<Rightarrow> string" where
  "join sep [] = []"
| "join sep [x] = x"
| "join sep (x # y # ys) = x @ sep @ join sep (y # ys)"

definition handshake_request :: "string \<Rightarrow> string \<Rightarrow> string \<Rightarrow> byte list" where
  "handshake_request p h key =
     encode_utf8 (join crlf
       [''GET '' @ p @ '' HTTP/1.1'', ''Host: '' @ h, ''Upgrade: websocket'',
        ''Connection: Upgrade'', ''Sec-WebSocket-Key: '' @ key,
        ''Sec-WebSocket-Version: 13'', [], []])"

text \<open>
  Lines 96-98: \<^verbatim>\<open>while b"\r\n\r\n" not in response: response += sock.recv(1024)\<close>. Once the
  peer has closed, \<^verbatim>\<open>recv\<close> returns \<^verbatim>\<open>b""\<close> for ever and the loop does not end: \<open>None\<close>.
\<close>

fun pieces_size :: "piece list \<Rightarrow> nat" where
  "pieces_size [] = 0"
| "pieces_size (Fault e # ps) = Suc (pieces_size ps)"
| "pieces_size (Data c # ps) = Suc (length c + pieces_size ps)"

function read_response :: "byte list \<Rightarrow> socket \<Rightarrow> ((pyerror + byte list) \<times> socket) option" where
  "read_response response s =
     (if is_substring (encode_utf8 (crlf @ crlf)) response then Some (Inr response, s)
      else if incoming s = [] then None
      else (case sock_recv 1024 s of
              (Inl e, s') \<Rightarrow> Some (Inl e, s')
            | (Inr chunk, s') \<Rightarrow> read_response (response @ chunk) s'))"
  by pat_completeness auto
termination
  by (relation "measure (\<lambda>(r, s). pieces_size (incoming s))")
     (auto simp: sock_recv_def split: if_splits list.splits piece.splits)

declare read_response.simps [simp del]

text \<open>\<^verbatim>\<open>SimpleWebSocket.connect\<close> (lines 68-104); \<open>None\<close> when it does not return.\<close>

definition connect_ws :: "net \<Rightarrow> simple_ws \<Rightarrow> ((pyerror + unit) \<times> simple_ws) option" where
  "connect_ws nw ws =
     (case parse_url ws of
        (Inl e, ws1) \<Rightarrow> Some (Inl e, ws1)
      | (Inr _, ws1) \<Rightarrow>
          (case (is_ssl ws1, host ws1, port ws1, path ws1) of
             (Some tls, Some h, Some p, Some pth) \<Rightarrow>
               (case net_open nw h p tls of
                  Inl e \<Rightarrow> Some (Inl e, ws1)
                | Inr s0 \<Rightarrow>
                    (case sock_send (handshake_request pth h (net_key nw)) s0 of
                       (Inl e, s1) \<Rightarrow> Some (Inl e, ws1\<lparr>sock := Some s1\<rparr>)
                     | (Inr _, s1) \<Rightarrow>
                         (case read_response [] s1 of
                            None \<Rightarrow> None
                          | Some (Inl e, s2) \<Rightarrow> Some (Inl e, ws1\<lparr>sock := Some s2\<rparr>)
                          | Some (Inr response, s2) \<Rightarrow>
                              (if \<not> is_substring (encode_utf8 ''101 Switching Protocols'') response
                               then Some (Inl (Exception ''WebSocket handshake failed''),
                                          ws1\<lparr>sock := Some s2\<rparr>)
                               else Some (Inr (), ws1\<lparr>sock := Some s2, connected := True\<rparr>)))))
           | _ \<Rightarrow> Some (Inl AttributeError, ws1)))"

text \<open>\<^verbatim>\<open>SimpleWebSocket.send\<close> (lines 106-121): one unmasked text frame.\<close>

definition frame_header :: "nat \<Rightarrow> pyerror + byte list" where
  "frame_header len =
     (if len \<le> 125 then struct_pack [B 0x81, B len]
      else if len \<le> 65535 then struct_pack [B 0x81, B 126, H len]
      else struct_pack [B 0x81, B 127, Q len])"

definition send_ws :: "string \<Rightarrow> simple_ws \<Rightarrow> (pyerror + unit) \<times> simple_ws" where
  "send_ws data ws =
     (if \<not> connected ws then (Inl (Exception ''Not connected''), ws)
      else
        (let payload = encode_utf8 data in
         case frame_header (length payload) of
           Inl e \<Rightarrow> (Inl e, ws)
         | Inr header \<Rightarrow>
             (case sock ws of
                None \<Rightarrow> (Inl AttributeError, ws)
              | Some s \<Rightarrow>
                  (case sock_send (header @ payload) s of
                     (r, s') \<Rightarrow> (r, ws\<lparr>sock := Some s'\<rparr>)))))"

text \<open>
  The payload loop of \<^verbatim>\<open>recv\<close> (lines 141-146): accumulate until \<open>len\<close> bytes are there
  or the socket returns nothing.
\<close>

function read_payload :: "nat \<Rightarrow> byte list \<Rightarrow> socket \<Rightarrow> (pyerror + byte list) \<times> socket" where
  "read_payload len payload s =
     (if length payload < len then
        (case sock_recv (len - length payload) s of
           (Inl e, s') \<Rightarrow> (Inl e, s')
         | (Inr chunk, s') \<Rightarrow>
             (if chunk = [] then (Inr payload, s')
              else read_payload len (payload @ chunk) s'))
      else (Inr payload, s))"
  by pat_completeness auto
termination
  by (relation "measure (\<lambda>(len, payload, s). len - length payload)") (auto simp: neq_Nil_conv)

declare read_payload.simps [simp del]

text \<open>The extended length field (lines 135-138).\<close>

definition read_length :: "byte \<Rightarrow> socket \<Rightarrow> (pyerror + nat) \<times> socket" where
  "read_length len7 s =
     (if len7 = 126 then
        (case sock_recv 2 s of
           (Inl e, s') \<Rightarrow> (Inl e, s')
         | (Inr bs, s') \<Rightarrow> (unpack_H bs, s'))
      else if len7 = 127 then
        (case sock_recv 8 s of
           (Inl e, s') \<Rightarrow> (Inl e, s')
         | (Inr bs, s') \<Rightarrow> (unpack_Q bs, s'))
      else (Inr (unat len7), s))"

text \<open>
  The reading half of \<^verbatim>\<open>recv\<close> (lines 128-146): the two header bytes, the extended
  length and the payload. \<open>None\<close> is the short header of lines 129-130; otherwise the result
  is the opcode of line 132, which is the first header byte masked with \<^verbatim>\<open>0x0f\<close>, and the
  payload.
\<close>

definition read_frame :: "socket \<Rightarrow> (pyerror + (byte \<times> byte list) option) \<times> socket" where
  "read_frame s0 =
     (case sock_recv 2 s0 of
        (Inl e, s1) \<Rightarrow> (Inl e, s1)
      | (Inr header, s1) \<Rightarrow>
          (if length header < 2 then (Inr None, s1)
           else
             (let opcode = (header ! 0) AND 0x0f;
                  len7 = (header ! 1) AND 0x7f
              in case read_length len7 s1 of
                   (Inl e, s2) \<Rightarrow> (Inl e, s2)
                 | (Inr len, s2) \<Rightarrow>
                     (case read_payload len [] s2 of
                        (Inl e, s3) \<Rightarrow> (Inl e, s3)
                      | (Inr payload, s3) \<Rightarrow> (Inr (Some (opcode, payload)), s3)))))"

text \<open>
  \<^verbatim>\<open>SimpleWebSocket.recv\<close> (lines 123-156). The masked opcode is compared with \<^verbatim>\<open>0x81\<close> and
  \<^verbatim>\<open>0x88\<close> (lines 149, 152). What the socket has consumed stays consumed when the method
  raises.
\<close>

definition recv_ws :: "simple_ws \<Rightarrow> (pyerror + string) \<times> simple_ws" where
  "recv_ws ws =
     (if \<not> connected ws then (Inl (Exception ''Not connected''), ws)
      else
        (case sock ws of
           None \<Rightarrow> (Inl AttributeError, ws)
         | Some s0 \<Rightarrow>
             (case read_frame s0 of
                (Inl e, s) \<Rightarrow> (Inl e, ws\<lparr>sock := Some s\<rparr>)
              | (Inr None, s) \<Rightarrow> (Inr [], ws\<lparr>sock := Some s\<rparr>)
              | (Inr (Some (opcode, payload)), s) \<Rightarrow>
                  (if opcode = 0x81 then
                     (case decode_utf8 payload of
                        Inl e \<Rightarrow> (Inl e, ws\<lparr>sock := Some s\<rparr>)
                      | Inr text \<Rightarrow> (Inr text, ws\<lparr>sock := Some s\<rparr>))
                   else if opcode = 0x88 then
                     (Inr [], ws\<lparr>sock := Some s, connected := False\<rparr>)
                   else (Inr [], ws\<lparr>sock := Some s\<rparr>)))))"

text \<open>
  \<^verbatim>\<open>SimpleWebSocket.close\<close> (lines 158-166): a best-effort close frame, whose failure is
  swallowed; the result also gives the socket that was closed, with what was written to it.
\<close>

definition close_ws :: "simple_ws \<Rightarrow> simple_ws \<times> socket option" where
  "close_ws ws =
     (case sock ws of
        None \<Rightarrow> (ws\<lparr>connected := False\<rparr>, None)
      | Some s \<Rightarrow>
          (case struct_pack [B 0x88, B 0] of
             Inl e \<Rightarrow> (ws\<lparr>sock := None, connected := False\<rparr>, Some s)
           | Inr bs \<Rightarrow>
               (case sock_send bs s of
                  (r, s') \<Rightarrow> (ws\<lparr>sock := None, connected := False\<rparr>, Some s'))))"

section \<open>The monitor: configuration, effects and state\<close>

text \<open>
  The configuration document, as \<^verbatim>\<open>load_config\<close> hands it over (\<^verbatim>\<open>DEFAULT_CONFIG\<close> updated
  with the loaded file): the feed URL, the endpoints by name, the trigger rules (JSON
  objects, any of whose keys may be missing) and the reconnect delay.
\<close>

record config =
  mempool_url :: string
  webhooks :: pydict
  triggers :: "pydict list"
  reconnect_delay :: pyval

text \<open>\<^verbatim>\<open>EVENT_MAP\<close> (lines 38-43), in the order in which \<^verbatim>\<open>items()\<close> yields it.\<close>

definition EVENT_MAP :: "(string \<times> string) list" where
  "EVENT_MAP =
     [(''blocks'', ''block''), (''mempool'', ''mempool''), (''txs'', ''tx''),
      (''transactions'', ''tx'')]"

text \<open>
  What the monitor does to the outside, in order: the log lines it writes, the HTTP
  requests it issues, the pauses it takes.
\<close>

datatype logline =
    LogStarting
  | LogConfig string
  | LogConnecting string
  | LogConnected
  | LogSub pyval
  | LogTrigger pyval
  | LogWebhookNotFound pyval
  | LogWebhookOk pyval pyval int
  | LogWebhookFailed pyval pyerror
  | LogError pyerror
  | LogConnectionError pyerror
  | LogReconnecting pyval

record request =
  req_url :: pyval
  req_data :: "byte list"
  req_headers :: pydict
  req_method :: string

datatype effect = Log logline | Http request pyval | Sleep pyval

text \<open>
  The collaborators outside the program: \<^verbatim>\<open>urllib.request.Request\<close> (which may reject
  its arguments), \<^verbatim>\<open>urlopen\<close> with a timeout (a status or an error), \<^verbatim>\<open>time.sleep\<close>,
  \<^verbatim>\<open>str.upper\<close> and the clock.
\<close>

record world =
  w_new_request :: "request \<Rightarrow> pyerror option"
  w_urlopen :: "request \<Rightarrow> pyval \<Rightarrow> pyerror + int"
  w_sleep :: "pyval \<Rightarrow> pyerror option"
  w_upper :: "string \<Rightarrow> string"
  w_clock :: int

record monitor =
  config_path :: string
  config :: config
  ws :: "simple_ws option"
  running :: bool
  subscriptions :: "pyval list"
  effects :: "effect list"

text \<open>\<^verbatim>\<open>MempoolMonitor.__init__\<close> (lines 172-177), with the loaded configuration.\<close>

definition new_monitor :: "string \<Rightarrow> config \<Rightarrow> monitor" where
  "new_monitor p cfg =
     \<lparr>config_path = p, config = cfg, ws = None, running = False,
      subscriptions = [], effects = []\<rparr>"

section \<open>NotificationDispatcher: \<^verbatim>\<open>send_webhook\<close>\<close>

text \<open>Lists and dicts are unhashable: they are neither dict keys nor set elements.\<close>

fun py_hashable :: "pyval \<Rightarrow> bool" where
  "py_hashable (PList xs) = False"
| "py_hashable (PDict d) = False"
| "py_hashable _ = True"

text \<open>\<^verbatim>\<open>d.get(name)\<close> with any value as the key, on a dict whose keys are strings.\<close>

definition dict_get_val :: "pydict \<Rightarrow> pyval \<Rightarrow> pyerror + pyval" where
  "dict_get_val d k =
     (if \<not> py_hashable k then Inl TypeError
      else (case k of PStr s \<Rightarrow> Inr (dict_get d s) | _ \<Rightarrow> Inr PNone))"

text \<open>\<^verbatim>\<open>{"Content-Type": "application/json", **headers}\<close>: later items replace earlier ones.\<close>

fun dict_set :: "pydict \<Rightarrow> string \<Rightarrow> pyval \<Rightarrow> pydict" where
  "dict_set [] k v = [(k, v)]"
| "dict_set ((k', v') # d) k v = (if k' = k then (k', v) # d else (k', v') # dict_set d k v)"

definition dict_merge :: "pydict \<Rightarrow> pydict \<Rightarrow> pydict" where
  "dict_merge d e = foldl (\<lambda>acc (k, v). dict_set acc k v) d e"

text \<open>
  \<^verbatim>\<open>send_webhook\<close> (lines 226-248). Everything before the \<^verbatim>\<open>try\<close> of line 244 raises to
  the caller; a failure of \<^verbatim>\<open>urlopen\<close> is logged and swallowed.
\<close>

definition send_webhook ::
  "pyrt \<Rightarrow> world \<Rightarrow> config \<Rightarrow> pyval \<Rightarrow> pyval \<Rightarrow> effect list \<Rightarrow> (pyerror + unit) \<times> effect list" where
  "send_webhook rt w cfg webhook_name payload fx =
     (case dict_get_val (webhooks cfg) webhook_name of
        Inl e \<Rightarrow> (Inl e, fx)
      | Inr webhook \<Rightarrow>
          (if \<not> py_truthy webhook then (Inr (), fx @ [Log (LogWebhookNotFound webhook_name)])
           else
             (case webhook of
                PDict wh \<Rightarrow>
                  (case dict_get_default wh ''method'' (PStr ''POST'') of
                     PStr meth \<Rightarrow>
                       (case rt_json_dumps rt payload of
                          Inl e \<Rightarrow> (Inl e, fx)
                        | Inr body \<Rightarrow>
                            (case dict_get_default wh ''headers'' (PDict []) of
                               PDict hs \<Rightarrow>
                                 (let req = \<lparr>req_url = dict_get wh ''url'',
                                             req_data = encode_utf8 body,
                                             req_headers =
                                               dict_merge
                                                 [(''Content-Type'', PStr ''application/json'')] hs,
                                             req_method = w_upper w meth\<rparr>
                                  in case w_new_request w req of
                                       Some e \<Rightarrow> (Inl e, fx)
                                     | None \<Rightarrow>
                                         (let tmo = dict_get_default wh ''timeout'' (PInt 10) in
                                          case w_urlopen w req tmo of
                                            Inr status \<Rightarrow>
                                              (Inr (),
                                               fx @ [Http req tmo,
                                                     Log (LogWebhookOk webhook_name
                                                            (dict_get wh ''url'') status)])
                                          | Inl e \<Rightarrow>
                                              (Inr (),
                                               fx @ [Http req tmo,
                                                     Log (LogWebhookFailed webhook_name e)])))
                             | _ \<Rightarrow> (Inl TypeError, fx)))
                   | _ \<Rightarrow> (Inl AttributeError, fx))
              | _ \<Rightarrow> (Inl AttributeError, fx))))"

section \<open>\<^verbatim>\<open>handle_event\<close>\<close>

text \<open>
  Line 9 is \<^verbatim>\<open>import datetime\<close>: the name \<^verbatim>\<open>datetime\<close> is the module, and line 262 asks
  it for the attribute \<^verbatim>\<open>now\<close>. The names below are the ones the module defines, its
  double-underscore attributes apart (the class \<^verbatim>\<open>datetime.datetime\<close> has \<^verbatim>\<open>now\<close>; the module
  has not).
\<close>

definition datetime_module_names :: "string list" where
  "datetime_module_names =
     [''MINYEAR'', ''MAXYEAR'', ''UTC'', ''date'', ''datetime'', ''datetime_CAPI'', ''sys'',
      ''time'', ''timedelta'', ''timezone'', ''tzinfo'']"

definition module_attr :: "string list \<Rightarrow> string \<Rightarrow> pyerror + unit" where
  "module_attr names a = (if a \<in> set names then Inr () else Inl AttributeError)"

text \<open>\<^verbatim>\<open>int(datetime.now().timestamp())\<close>.\<close>

definition timestamp_now :: "world \<Rightarrow> pyerror + int" where
  "timestamp_now w =
     (case module_attr datetime_module_names ''now'' of
        Inl e \<Rightarrow> Inl e
      | Inr _ \<Rightarrow> Inr (w_clock w))"

text \<open>
  The body of the \<^verbatim>\<open>try\<close> of lines 257-263: the arguments are evaluated first (the rule's
  endpoint name, then the payload, item by item), then \<^verbatim>\<open>send_webhook\<close> is called.
\<close>

definition fire ::
  "pyrt \<Rightarrow> world \<Rightarrow> config \<Rightarrow> pydict \<Rightarrow> string \<Rightarrow> pyval \<Rightarrow> effect list
     \<Rightarrow> (pyerror + unit) \<times> effect list" where
  "fire rt w cfg rule event_type event_data fx =
     (case timestamp_now w of
        Inl e \<Rightarrow> (Inl e, fx)
      | Inr ts \<Rightarrow>
          send_webhook rt w cfg (dict_get rule ''webhook'')
            (PDict [(''event'', PStr event_type), (''rule'', dict_get rule ''name''),
                    (''data'', event_data), (''timestamp'', PInt ts)]) fx)"

text \<open>
  The loop of \<^verbatim>\<open>handle_event\<close> (lines 251-265) over the rules still to visit.
  \<^verbatim>\<open>evaluate_rule\<close> is called outside the \<^verbatim>\<open>try\<close>; the \<^verbatim>\<open>except Exception: pass\<close> of
  lines 264-265 covers the dispatch only.
\<close>

fun handle_rules ::
  "pyrt \<Rightarrow> world \<Rightarrow> config \<Rightarrow> string \<Rightarrow> pyval \<Rightarrow> pydict list \<Rightarrow> effect list
     \<Rightarrow> (pyerror + unit) \<times> effect list" where
  "handle_rules rt w cfg event_type event_data [] fx = (Inr (), fx)"
| "handle_rules rt w cfg event_type event_data (rule # rules) fx =
     (if \<not> py_eq (dict_get rule ''event'') (PStr event_type)
      then handle_rules rt w cfg event_type event_data rules fx
      else
        (case evaluate_rule rt rule event_data of
           Inl e \<Rightarrow> (Inl e, fx)
         | Inr matched \<Rightarrow>
             (if matched then
                (case fire rt w cfg rule event_type event_data
                        (fx @ [Log (LogTrigger (dict_get rule ''name''))]) of
                   (r, fx') \<Rightarrow> handle_rules rt w cfg event_type event_data rules fx')
              else handle_rules rt w cfg event_type event_data rules fx)))"

definition handle_event ::
  "pyrt \<Rightarrow> world \<Rightarrow> config \<Rightarrow> string \<Rightarrow> pyval \<Rightarrow> effect list \<Rightarrow> (pyerror + unit) \<times> effect list" where
  "handle_event rt w cfg event_type event_data fx =
     handle_rules rt w cfg event_type event_data (triggers cfg) fx"

section \<open>ConnectionSupervisor: \<^verbatim>\<open>subscribe\<close>, \<^verbatim>\<open>connect\<close>, \<^verbatim>\<open>run\<close>\<close>

text \<open>
  A \<^verbatim>\<open>set\<close> of values is the list of its elements, without repetition, in the order in
  which they were added (Python fixes no order of iteration; nothing below depends on it);
  membership is by \<^verbatim>\<open>==\<close>.
\<close>

definition py_mem :: "pyval \<Rightarrow> pyval list \<Rightarrow> bool" where
  "py_mem v xs = list_ex (\<lambda>x. py_eq x v) xs"

text \<open>\<^verbatim>\<open>subscribe\<close> (lines 267-274).\<close>

definition subscribe :: "pyrt \<Rightarrow> pyval \<Rightarrow> monitor \<Rightarrow> (pyerror + unit) \<times> monitor" where
  "subscribe rt event m =
     (if \<not> py_hashable event then (Inl TypeError, m)
      else if py_mem event (subscriptions m) then (Inr (), m)
      else
        (case rt_json_dumps rt (PDict [(''action'', PStr ''want''), (''data'', PList [event])]) of
           Inl e \<Rightarrow> (Inl e, m)
         | Inr msg \<Rightarrow>
             (case ws m of
                None \<Rightarrow> (Inl AttributeError, m)
              | Some sk \<Rightarrow>
                  (case send_ws msg sk of
                     (Inl e, sk') \<Rightarrow> (Inl e, m\<lparr>ws := Some sk'\<rparr>)
                   | (Inr _, sk') \<Rightarrow>
                       (Inr (), m\<lparr>ws := Some sk',
                                  subscriptions := subscriptions m @ [event],
                                  effects := effects m @ [Log (LogSub event)]\<rparr>)))))"

text \<open>Lines 286-288: the set of the rules' event categories.\<close>

fun collect_events :: "pydict list \<Rightarrow> pyval list \<Rightarrow> pyerror + pyval list" where
  "collect_events [] events = Inr events"
| "collect_events (rule # rules) events =
     (let ev = dict_get rule ''event'' in
      if \<not> py_hashable ev then Inl TypeError
      else collect_events rules (if py_mem ev events then events else events @ [ev]))"

text \<open>Lines 290-291: subscribe to each of them; the first failure ends the loop.\<close>

fun subscribe_all :: "pyrt \<Rightarrow> pyval list \<Rightarrow> monitor \<Rightarrow> (pyerror + unit) \<times> monitor" where
  "subscribe_all rt [] m = (Inr (), m)"
| "subscribe_all rt (event # events) m =
     (case subscribe rt event m of
        (Inl e, m') \<Rightarrow> (Inl e, m')
      | (Inr _, m') \<Rightarrow> subscribe_all rt events m')"

text \<open>
  \<^verbatim>\<open>MempoolMonitor.connect\<close> (lines 276-291). \<open>wsc\<close> is what \<^verbatim>\<open>self.ws.connect()\<close> does to the
  fresh \<^verbatim>\<open>SimpleWebSocket\<close>; in the program it is \<open>connect_ws\<close> on the network. \<open>None\<close> when
  the call does not return.
\<close>

definition connect ::
  "pyrt \<Rightarrow> (simple_ws \<Rightarrow> ((pyerror + unit) \<times> simple_ws) option) \<Rightarrow> monitor
     \<Rightarrow> ((pyerror + unit) \<times> monitor) option" where
  "connect rt wsc m =
     (let u = mempool_url (config m);
          m1 = m\<lparr>effects := effects m @ [Log (LogConnecting u)], ws := Some (new_ws u)\<rparr>
      in case wsc (new_ws u) of
           None \<Rightarrow> None
         | Some (Inl e, sk) \<Rightarrow> Some (Inl e, m1\<lparr>ws := Some sk\<rparr>)
         | Some (Inr _, sk) \<Rightarrow>
             (let m2 = m1\<lparr>ws := Some sk, running := True,
                          effects := effects m1 @ [Log LogConnected]\<rparr>
              in case collect_events (triggers (config m2)) [] of
                   Inl e \<Rightarrow> Some (Inl e, m2)
                 | Inr events \<Rightarrow> Some (subscribe_all rt events m2)))"

text \<open>
  EventRouter, lines 308-313. \<^verbatim>\<open>key in data\<close> is a key test on a dict, an element test on
  a list, a substring test on a string and a \<^verbatim>\<open>TypeError\<close> on anything else; \<^verbatim>\<open>data[key]\<close>
  with a string key is defined on dicts only.
\<close>

definition py_contains :: "string \<Rightarrow> pyval \<Rightarrow> pyerror + bool" where
  "py_contains k data =
     (case data of
        PDict d \<Rightarrow> Inr (k \<in> fst ` set d)
      | PList xs \<Rightarrow> Inr (py_mem (PStr k) xs)
      | PStr s \<Rightarrow> Inr (is_substring k s)
      | _ \<Rightarrow> Inl TypeError)"

definition py_getitem :: "pyval \<Rightarrow> string \<Rightarrow> pyerror + pyval" where
  "py_getitem data k =
     (case data of
        PDict d \<Rightarrow> (case map_of d k of None \<Rightarrow> Inl KeyError | Some v \<Rightarrow> Inr v)
      | _ \<Rightarrow> Inl TypeError)"

text \<open>Lines 311-312: a list is wrapped under its key, anything else is forwarded as it is.\<close>

definition event_payload :: "string \<Rightarrow> pyval \<Rightarrow> pyval" where
  "event_payload key v = (case v of PList xs \<Rightarrow> PDict [(key, v)] | _ \<Rightarrow> v)"

fun route ::
  "pyrt \<Rightarrow> world \<Rightarrow> config \<Rightarrow> (string \<times> string) list \<Rightarrow> pyval \<Rightarrow> effect list
     \<Rightarrow> (pyerror + unit) \<times> effect list" where
  "route rt w cfg [] data fx = (Inr (), fx)"
| "route rt w cfg ((key, event_type) # rest) data fx =
     (case py_contains key data of
        Inl e \<Rightarrow> (Inl e, fx)
      | Inr present \<Rightarrow>
          (if present then
             (case py_getitem data key of
                Inl e \<Rightarrow> (Inl e, fx)
              | Inr v \<Rightarrow>
                  (case handle_event rt w cfg event_type (event_payload key v) fx of
                     (Inl e, fx') \<Rightarrow> (Inl e, fx')
                   | (Inr _, fx') \<Rightarrow> route rt w cfg rest data fx'))
           else route rt w cfg rest data fx))"

text \<open>Lines 307-313: a non-empty message is parsed and routed.\<close>

definition on_message ::
  "pyrt \<Rightarrow> world \<Rightarrow> config \<Rightarrow> string \<Rightarrow> effect list \<Rightarrow> (pyerror + unit) \<times> effect list" where
  "on_message rt w cfg msg fx =
     (case rt_json_loads rt msg of
        Inl e \<Rightarrow> (Inl e, fx)
      | Inr data \<Rightarrow> route rt w cfg EVENT_MAP data fx)"

text \<open>
  The body of the inner \<^verbatim>\<open>try\<close> (lines 305-313): one frame read and handled. \<open>rcv\<close> is what
  \<^verbatim>\<open>self.ws.recv()\<close> does to the connection; in the program it is \<open>recv_ws\<close>.
\<close>

definition pump ::
  "(simple_ws \<Rightarrow> (pyerror + string) \<times> simple_ws) \<Rightarrow> pyrt \<Rightarrow> world \<Rightarrow> monitor
     \<Rightarrow> (pyerror + unit) \<times> monitor" where
  "pump rcv rt w m =
     (case ws m of
        None \<Rightarrow> (Inl AttributeError, m)
      | Some sk \<Rightarrow>
          (case rcv sk of
             (Inl e, sk') \<Rightarrow> (Inl e, m\<lparr>ws := Some sk'\<rparr>)
           | (Inr msg, sk') \<Rightarrow>
               (if msg \<noteq> [] then
                  (case on_message rt w (config m) msg (effects m) of
                     (r, fx') \<Rightarrow> (r, m\<lparr>ws := Some sk', effects := fx'\<rparr>))
                else (Inr (), m\<lparr>ws := Some sk'\<rparr>))))"

text \<open>
  The inner loop (lines 303-316). It may run for ever, so it takes fuel: one unit per
  test of the loop condition, \<open>None\<close> when the fuel is spent. An exception in the body is
  logged and leaves the loop (\<^verbatim>\<open>break\<close>); the condition itself is outside the inner \<^verbatim>\<open>try\<close>.
\<close>

fun receive_loop ::
  "nat \<Rightarrow> (simple_ws \<Rightarrow> (pyerror + string) \<times> simple_ws) \<Rightarrow> pyrt \<Rightarrow> world \<Rightarrow> monitor
     \<Rightarrow> ((pyerror + unit) \<times> monitor) option" where
  "receive_loop 0 rcv rt w m = None"
| "receive_loop (Suc n) rcv rt w m =
     (if \<not> running m then Some (Inr (), m)
      else
        (case ws m of
           None \<Rightarrow> Some (Inl AttributeError, m)
         | Some sk \<Rightarrow>
             (if \<not> connected sk then Some (Inr (), m)
              else
                (case pump rcv rt w m of
                   (Inl e, m') \<Rightarrow> Some (Inr (), m'\<lparr>effects := effects m' @ [Log (LogError e)]\<rparr>)
                 | (Inr _, m') \<Rightarrow> receive_loop n rcv rt w m'))))"

text \<open>
  The outer loop (lines 299-322), with fuel as well. The \<^verbatim>\<open>try\<close> covers \<^verbatim>\<open>connect\<close> and the
  inner loop; its handler logs, sleeps and lets the loop go round. An exception raised by
  \<^verbatim>\<open>time.sleep\<close> inside the handler leaves \<^verbatim>\<open>run\<close>.
\<close>

fun run_loop ::
  "nat \<Rightarrow> pyrt \<Rightarrow> world \<Rightarrow> (simple_ws \<Rightarrow> ((pyerror + unit) \<times> simple_ws) option)
     \<Rightarrow> (simple_ws \<Rightarrow> (pyerror + string) \<times> simple_ws) \<Rightarrow> monitor
     \<Rightarrow> ((pyerror + unit) \<times> monitor) option" where
  "run_loop 0 rt w wsc rcv m = None"
| "run_loop (Suc n) rt w wsc rcv m =
     (if \<not> running m then Some (Inr (), m)
      else
        (case (case connect rt wsc m of
                 None \<Rightarrow> None
               | Some (Inl e, m1) \<Rightarrow> Some (Inl e, m1)
               | Some (Inr _, m1) \<Rightarrow> receive_loop n rcv rt w m1) of
           None \<Rightarrow> None
         | Some (Inr _, m2) \<Rightarrow> run_loop n rt w wsc rcv m2
         | Some (Inl e, m2) \<Rightarrow>
             (let delay = reconnect_delay (config m2);
                  m3 = m2\<lparr>effects := effects m2 @
                             [Log (LogConnectionError e), Log (LogReconnecting delay)]\<rparr>
              in case w_sleep w delay of
                   Some e' \<Rightarrow> Some (Inl e', m3)
                 | None \<Rightarrow>
                     run_loop n rt w wsc rcv (m3\<lparr>effects := effects m3 @ [Sleep delay]\<rparr>))))"

text \<open>
  \<^verbatim>\<open>MempoolMonitor.run\<close> (lines 293-322), on the network \<open>nw\<close>: the program's own
  \<^verbatim>\<open>SimpleWebSocket.connect\<close> and \<^verbatim>\<open>SimpleWebSocket.recv\<close>.
\<close>

definition run ::
  "nat \<Rightarrow> pyrt \<Rightarrow> world \<Rightarrow> net \<Rightarrow> monitor \<Rightarrow> ((pyerror + unit) \<times> monitor) option" where
  "run fuel rt w nw m =
     run_loop fuel rt w (connect_ws nw) recv_ws
       (m\<lparr>effects := effects m @ [Log LogStarting, Log (LogConfig (config_path m))]\<rparr>)"

section \<open>An interpreter and a world to run examples in\<close>

text \<open>
  The examples need the parameters at concrete values. \<open>sample_rt\<close> answers the calls the
  examples make as CPython does: \<^verbatim>\<open>float\<close> of a small \<^verbatim>\<open>int\<close> is exact, and \<^verbatim>\<open>json.dumps\<close>
  of the subscription request for the category \<^verbatim>\<open>block\<close> is the text below. \<open>sample_world\<close>
  is a world in which every HTTP call is answered with status 200 and \<^verbatim>\<open>sleep\<close> returns.
\<close>

definition want_block :: pyval where
  "want_block = PDict [(''action'', PStr ''want''), (''data'', PList [PStr ''block''])]"

definition want_block_json :: string where
  "want_block_json =
     ''{'' @ [CHR 0x22] @ ''action'' @ [CHR 0x22] @ '': '' @ [CHR 0x22] @ ''want'' @ [CHR 0x22]
      @ '', '' @ [CHR 0x22] @ ''data'' @ [CHR 0x22] @ '': ['' @ [CHR 0x22] @ ''block''
      @ [CHR 0x22] @ '']}''"

definition sample_rt :: pyrt where
  "sample_rt =
     \<lparr>rt_repr = (\<lambda>v. []),
      rt_float_of_int = (\<lambda>i. Inr (Fin (of_int i))),
      rt_float_of_str = (\<lambda>s. Inl ValueError),
      rt_json_loads = (\<lambda>s. Inl JSONDecodeError),
      rt_json_dumps = (\<lambda>v. if v = want_block then Inr want_block_json else Inl TypeError)\<rparr>"

definition sample_world :: world where
  "sample_world =
     \<lparr>w_new_request = (\<lambda>r. None),
      w_urlopen = (\<lambda>r t. Inr 200),
      w_sleep = (\<lambda>d. None),
      w_upper = (\<lambda>s. s),
      w_clock = 1700000000\<rparr>"

text \<open>A socket on which the peer delivers the given pieces, and a connection over it.\<close>

definition socket_with :: "piece list \<Rightarrow> socket" where
  "socket_with ps = \<lparr>incoming = ps, sent = [], broken = False\<rparr>"

definition connected_ws :: "string \<Rightarrow> socket \<Rightarrow> simple_ws" where
  "connected_ws u s = (new_ws u)\<lparr>sock := Some s, connected := True\<rparr>"

text \<open>
  What \<^verbatim>\<open>send\<close> writes for a text on a fresh connection, and what \<^verbatim>\<open>recv\<close> returns when
  the peer delivers the given bytes in one piece (the spec's \<^verbatim>\<open>encodeText\<close> and
  \<^verbatim>\<open>decodeFrame\<close>).
\<close>

definition encodeText :: "string \<Rightarrow> pyerror + byte list" where
  "encodeText s =
     (case send_ws s (connected_ws [] (socket_with [])) of
        (Inl e, sk) \<Rightarrow> Inl e
      | (Inr _, sk) \<Rightarrow> (case sock sk of None \<Rightarrow> Inr [] | Some so \<Rightarrow> Inr (sent so)))"

definition decodeFrame :: "byte list \<Rightarrow> pyerror + string" where
  "decodeFrame bs = fst (recv_ws (connected_ws [] (socket_with [Data bs])))"

text \<open>
  The handshake against a server that answers \<^verbatim>\<open>101 Switching Protocols\<close>, as
  \<^verbatim>\<open>SimpleWebSocket.connect\<close> ends when it gets that far (lines 79 and 104): the object holds
  a socket and is connected. The bytes of the upgrade request are left out of \<open>sent\<close>, which
  then holds the frames written after the handshake.
\<close>

definition handshake_ok :: "simple_ws \<Rightarrow> ((pyerror + unit) \<times> simple_ws) option" where
  "handshake_ok sk = Some (Inr (), sk\<lparr>sock := Some (socket_with []), connected := True\<rparr>)"

text \<open>The bytes written so far on the monitor's current stream.\<close>

definition frames_sent :: "monitor \<Rightarrow> byte list" where
  "frames_sent m =
     (case ws m of
        None \<Rightarrow> []
      | Some sk \<Rightarrow> (case sock sk of None \<Rightarrow> [] | Some so \<Rightarrow> sent so))"

text \<open>
  The \<^verbatim>\<open>contains\<close> row of the spec's operator table, word for word: the string form of the
  target is a substring of the string form of the resolved value, an absent value counting
  as the empty string.
\<close>

definition contains_spec :: "pyrt \<Rightarrow> pyval \<Rightarrow> pyval \<Rightarrow> bool" where
  "contains_spec rt target val =
     is_substring (py_str rt target) (if val = PNone then [] else py_str rt val)"

text \<open>Rules, endpoints and configurations for the examples.\<close>

definition rule_on :: "string \<Rightarrow> string \<Rightarrow> string \<Rightarrow> string \<Rightarrow> pydict" where
  "rule_on name field op hook =
     [(''name'', PStr name), (''event'', PStr ''block''), (''field'', PStr field),
      (''operator'', PStr op), (''webhook'', PStr hook)]"

definition cfg_with :: "pydict \<Rightarrow> pydict list \<Rightarrow> config" where
  "cfg_with hooks rules =
     \<lparr>mempool_url = ''wss://mempool.space/api/v1/ws'', webhooks = hooks, triggers = rules,
      reconnect_delay = PInt 5\<rparr>"

definition hook_local :: "string \<times> pyval" where
  "hook_local = (''hook'', PDict [(''url'', PStr ''http://localhost:9000/notify'')])"

definition rule_contains :: "string \<Rightarrow> string \<Rightarrow> pydict" where
  "rule_contains field target =
     [(''field'', PStr field), (''operator'', PStr ''contains''), (''value'', PStr target)]"

text \<open>
  A rule whose target \<^verbatim>\<open>"tall"\<close> is no number, a rule that only asks for the field, and an
  event that has the field.
\<close>

definition rule_tall :: pydict where
  "rule_tall = rule_on ''tall'' ''height'' ''>'' ''hook'' @ [(''value'', PStr ''tall'')]"

definition rule_seen :: pydict where
  "rule_seen = rule_on ''seen'' ''height'' ''exists'' ''hook''"

definition height5 :: pyval where
  "height5 = PDict [(''height'', PInt 5)]"





text \<open>
  A new monitor with one rule on the category \<^verbatim>\<open>block\<close>, and one call of \<^verbatim>\<open>connect\<close> on a
  feed whose handshake succeeds.
\<close>

definition block_monitor :: monitor where
  "block_monitor =
     new_monitor ''config.json''
       (cfg_with [hook_local] [rule_on ''any'' ''blocks'' ''exists'' ''hook''])"

definition reconnect :: "monitor \<Rightarrow> monitor option" where
  "reconnect m =
     (case connect sample_rt handshake_ok m of Some (Inr _, m') \<Rightarrow> Some m' | _ \<Rightarrow> None)"

section \<open>FrameCodec: what \<^verbatim>\<open>recv\<close> can return\<close>

text \<open>
  The opcode of line 132 is at most 15, so neither comparison of lines 149 and 152 can
  succeed.
\<close>

lemma opcode_not_text: "(x::byte) AND 0x0f \<noteq> 0x81"
proof
  assume a: "x AND 0x0f = 0x81"
  have "x AND 0x0f \<le> 0x0f" by (rule word_and_le1)
  with a show False by simp
qed

lemma opcode_not_close: "(x::byte) AND 0x0f \<noteq> 0x88"
proof
  assume a: "x AND 0x0f = 0x88"
  have "x AND 0x0f \<le> 0x0f" by (rule word_and_le1)
  with a show False by simp
qed

text \<open>Whatever the peer sends, \<^verbatim>\<open>recv\<close> leaves \<open>connected\<close> as it was and returns no text.\<close>

lemma recv_ws_connected: "connected (snd (recv_ws sk)) = connected sk"
  by (auto simp: recv_ws_def read_frame_def Let_def opcode_not_text opcode_not_close
           split: option.splits prod.splits sum.splits)

lemma recv_ws_no_text: "fst (recv_ws sk) = Inr t \<Longrightarrow> t = []"
  by (auto simp: recv_ws_def read_frame_def Let_def opcode_not_text opcode_not_close
           split: option.splits prod.splits sum.splits if_splits)

lemma decodeFrame_never_text: "decodeFrame bs \<noteq> Inr (c # s)"
  using recv_ws_no_text [of "connected_ws [] (socket_with [Data bs])" "c # s"]
  by (auto simp: decodeFrame_def)

text \<open>
  Claim C1 (round trip): decoding the frame that \<^verbatim>\<open>send(s)\<close> writes should give \<open>s\<close> back.
  On the code it does not: for the one-character text \<^verbatim>\<open>a\<close>, \<^verbatim>\<open>send\<close> writes the frame
  \<^verbatim>\<open>81 01 61\<close>, and \<^verbatim>\<open>recv\<close> on that frame returns the empty string.
\<close>

theorem text_frame_roundtrip_lost:
  "encodeText ''a'' = Inr [0x81, 0x01, 0x61] \<and> decodeFrame [0x81, 0x01, 0x61] = Inr []"
  by (simp add: encodeText_def decodeFrame_def send_ws_def recv_ws_def read_frame_def connected_ws_def
        new_ws_def socket_with_def encode_utf8_def frame_header_def sock_send_def
        sock_recv_def read_length_def Let_def opcode_not_text opcode_not_close
        read_payload.simps [of _ "[]"] read_payload.simps [of _ "[_]"])

text \<open>
  Claim C5 (close frame): on a close frame \<^verbatim>\<open>recv\<close> should mark the connection closed and
  return no payload. On the code, the close frame \<^verbatim>\<open>88 00\<close> is consumed and the empty string
  returned, but the connection is still marked connected.
\<close>

theorem close_frame_leaves_connected:
  "recv_ws (connected_ws u (socket_with [Data [0x88, 0x00]]))
     = (Inr [], connected_ws u (socket_with []))
   \<and> connected (connected_ws u (socket_with [])) = True"
  by (simp add: recv_ws_def read_frame_def connected_ws_def new_ws_def socket_with_def
        sock_recv_def read_length_def Let_def opcode_not_text opcode_not_close read_payload.simps [of _ "[]"])

subsection \<open>The frame itself is sound\<close>

text \<open>
  The length field is the minimal one, and it reads back: the header that \<^verbatim>\<open>send\<close> packs
  for a payload of a given size is decoded by lines 133-138 to that size.
\<close>

lemma be_bytes_numeral:
  "be_bytes (numeral k) n = be_bytes (pred_numeral k) (n div 256) @ [of_nat (n mod 256)]"
  by (simp only: numeral_eq_Suc be_bytes.simps)

lemma frame_header_boundaries:
  "frame_header 125 = Inr [0x81, 125]"
  "frame_header 126 = Inr [0x81, 126, 0, 126]"
  "frame_header 65535 = Inr [0x81, 126, 255, 255]"
  "frame_header 65536 = Inr [0x81, 127, 0, 0, 0, 0, 0, 1, 0, 0]"
  by (simp_all add: frame_header_def be_bytes_numeral)

lemma be_nat_append: "be_nat (bs @ [b]) = be_nat bs * 256 + unat b"
  by (simp add: be_nat_def)

lemma be_nat_be_bytes: "n < 256 ^ k \<Longrightarrow> be_nat (be_bytes k n) = n"
proof (induction k arbitrary: n)
  case 0
  then show ?case by (simp add: be_nat_def)
next
  case (Suc k)
  then have "n div 256 < 256 ^ k"
    by (simp add: less_mult_imp_div_less mult.commute)
  then have "be_nat (be_bytes k (n div 256)) = n div 256" by (rule Suc.IH)
  moreover have "unat (of_nat (n mod 256) :: byte) = n mod 256"
    by (simp add: unat_of_nat)
  ultimately show ?case by (simp add: be_nat_append)
qed

lemma mask7: "(0x7f :: byte) = mask 7"
  by (simp add: mask_eq_exp_minus_1)

lemma low7_unat: "n \<le> 125 \<Longrightarrow> unat (of_nat n :: byte) = n"
  by (simp add: unat_of_nat)

lemma low7: "n \<le> 125 \<Longrightarrow> (of_nat n :: byte) AND 0x7f = of_nat n"
proof -
  assume a: "n \<le> 125"
  have "unat (of_nat n :: byte) = n" using a by (rule low7_unat)
  then have "uint (of_nat n :: byte) = int n" by (simp add: uint_nat)
  then have "uint (of_nat n :: byte) < 2 ^ 7" using a by simp
  then show ?thesis by (simp add: mask7 mask_eq_iff)
qed

lemma low7_ne: "n \<le> 125 \<Longrightarrow> (of_nat n :: byte) \<noteq> 126 \<and> (of_nat n :: byte) \<noteq> 127"
proof -
  assume a: "n \<le> 125"
  have u: "unat (of_nat n :: byte) = n" using a by (rule low7_unat)
  show ?thesis
  proof (intro conjI notI)
    assume "(of_nat n :: byte) = 126"
    then have "unat (of_nat n :: byte) = unat (126 :: byte)" by simp
    with u a show False by simp
  next
    assume "(of_nat n :: byte) = 127"
    then have "unat (of_nat n :: byte) = unat (127 :: byte)" by simp
    with u a show False by simp
  qed
qed

text \<open>
  So the reading half of \<^verbatim>\<open>recv\<close> gives back the payload of every frame that \<^verbatim>\<open>send\<close>
  writes, with the opcode 1 of a text frame, and decoding that payload gives the text:
  what stands between the text and the caller is the comparison of line 149 alone.
\<close>

lemma length_be_bytes: "length (be_bytes k n) = k"
  by (induction k arbitrary: n) auto

lemma read_payload_empty: "read_payload 0 [] s = (Inr [], s)"
  by (simp add: read_payload.simps [of 0])

lemma read_payload_one_piece:
  "p \<noteq> [] \<Longrightarrow> read_payload (length p) [] (socket_with [Data p]) = (Inr p, socket_with [])"
  by (simp add: read_payload.simps [of _ "[]"] read_payload.simps [of _ p] sock_recv_def
        socket_with_def)

lemma recv_prefix:
  "length pre = n \<Longrightarrow> rest \<noteq> [] \<Longrightarrow>
   sock_recv n (socket_with [Data (pre @ rest)]) = (Inr pre, socket_with [Data rest])"
  by (auto simp: sock_recv_def socket_with_def)

lemma recv_all:
  "length bs \<le> n \<Longrightarrow> sock_recv n (socket_with [Data bs]) = (Inr bs, socket_with [])"
  by (simp add: sock_recv_def socket_with_def)

lemma read_frame_short:
  assumes "length p \<le> 125"
  shows "read_frame (socket_with [Data ([0x81, of_nat (length p)] @ p)])
           = (Inr (Some (0x01, p)), socket_with [])"
proof (cases "p = []")
  case True
  then show ?thesis
    by (simp add: read_frame_def recv_all read_length_def read_payload_empty)
next
  case False
  have r: "sock_recv 2 (socket_with [Data ([0x81, of_nat (length p)] @ p)])
             = (Inr [0x81, of_nat (length p)], socket_with [Data p])"
    using False by (intro recv_prefix) simp_all
  have l: "read_length (of_nat (length p) AND 0x7f) (socket_with [Data p])
             = (Inr (length p), socket_with [Data p])"
    using assms low7 [OF assms] low7_ne [OF assms] low7_unat [OF assms]
    by (simp add: read_length_def)
  show ?thesis
    using False r l by (simp add: read_frame_def read_payload_one_piece)
qed

lemma read_frame_medium:
  assumes "125 < length p" "length p \<le> 65535"
  shows "read_frame (socket_with [Data (([0x81, 126] @ be_bytes 2 (length p)) @ p)])
           = (Inr (Some (0x01, p)), socket_with [])"
proof -
  have ne: "p \<noteq> []" using assms by auto
  have r: "sock_recv 2 (socket_with [Data ([0x81, 126] @ (be_bytes 2 (length p) @ p))])
             = (Inr [0x81, 126], socket_with [Data (be_bytes 2 (length p) @ p)])"
    using ne by (intro recv_prefix) simp_all
  have r2: "sock_recv 2 (socket_with [Data (be_bytes 2 (length p) @ p)])
             = (Inr (be_bytes 2 (length p)), socket_with [Data p])"
    using ne by (intro recv_prefix) (simp_all add: length_be_bytes)
  have "length p < 256 ^ 2" using assms by simp
  then have n: "be_nat (be_bytes 2 (length p)) = length p" by (rule be_nat_be_bytes)
  have l: "read_length (126 AND 0x7f) (socket_with [Data (be_bytes 2 (length p) @ p)])
             = (Inr (length p), socket_with [Data p])"
    by (simp add: read_length_def r2 unpack_H_def length_be_bytes n)
  show ?thesis
    using ne r l by (simp add: read_frame_def read_payload_one_piece)
qed

lemma read_frame_long:
  assumes "65535 < length p" "length p < 2 ^ 64"
  shows "read_frame (socket_with [Data (([0x81, 127] @ be_bytes 8 (length p)) @ p)])
           = (Inr (Some (0x01, p)), socket_with [])"
proof -
  have ne: "p \<noteq> []" using assms by auto
  have r: "sock_recv 2 (socket_with [Data ([0x81, 127] @ (be_bytes 8 (length p) @ p))])
             = (Inr [0x81, 127], socket_with [Data (be_bytes 8 (length p) @ p)])"
    using ne by (intro recv_prefix) simp_all
  have r2: "sock_recv 8 (socket_with [Data (be_bytes 8 (length p) @ p)])
             = (Inr (be_bytes 8 (length p)), socket_with [Data p])"
    using ne by (intro recv_prefix) (simp_all add: length_be_bytes)
  have "length p < 256 ^ 8" using assms by simp
  then have n: "be_nat (be_bytes 8 (length p)) = length p" by (rule be_nat_be_bytes)
  have l: "read_length (127 AND 0x7f) (socket_with [Data (be_bytes 8 (length p) @ p)])
             = (Inr (length p), socket_with [Data p])"
    by (simp add: read_length_def r2 unpack_Q_def length_be_bytes n)
  show ?thesis
    using ne r l by (simp add: read_frame_def read_payload_one_piece)
qed

lemma frame_header_cases:
  assumes "frame_header n = Inr h"
  shows "(n \<le> 125 \<and> h = [0x81, of_nat n])
       \<or> (125 < n \<and> n \<le> 65535 \<and> h = [0x81, 126] @ be_bytes 2 n)
       \<or> (65535 < n \<and> n < 2 ^ 64 \<and> h = [0x81, 127] @ be_bytes 8 n)"
  using assms by (auto simp: frame_header_def split: if_splits)

lemma read_frame_of_sent_frame:
  assumes "frame_header (length p) = Inr h"
  shows "read_frame (socket_with [Data (h @ p)]) = (Inr (Some (0x01, p)), socket_with [])"
  using frame_header_cases [OF assms] read_frame_short [of p] read_frame_medium [of p]
    read_frame_long [of p]
  by auto

lemma char_of_byte_of_char: "char_of (unat (of_char c :: byte)) = c"
proof -
  have "(of_char c :: byte) = of_nat (of_char c)" by (simp add: of_nat_of_char)
  then have "unat (of_char c :: byte) = of_char c mod 256" by (simp add: unat_of_nat)
  then show ?thesis by simp
qed

lemma decode_encode_utf8:
  "valid_utf8 (encode_utf8 s) \<Longrightarrow> decode_utf8 (encode_utf8 s) = Inr s"
  by (simp add: decode_utf8_def encode_utf8_def char_of_byte_of_char comp_def)

lemma encodeText_eq:
  "encodeText s = (case frame_header (length s) of Inl e \<Rightarrow> Inl e | Inr h \<Rightarrow> Inr (h @ encode_utf8 s))"
  by (simp add: encodeText_def send_ws_def connected_ws_def new_ws_def socket_with_def
        sock_send_def encode_utf8_def Let_def split: sum.splits)

lemma sent_frame_read_back:
  assumes "encodeText s = Inr bs"
  shows "read_frame (socket_with [Data bs]) = (Inr (Some (0x01, encode_utf8 s)), socket_with [])"
proof -
  obtain h where h: "frame_header (length (encode_utf8 s)) = Inr h" and bs: "bs = h @ encode_utf8 s"
    using assms by (auto simp: encodeText_eq encode_utf8_def split: sum.splits)
  show ?thesis unfolding bs by (rule read_frame_of_sent_frame [OF h])
qed

section \<open>TransportHandshake: \<^verbatim>\<open>connect\<close> never gets through\<close>

lemma parse_url_raises: "parse_url sk = (Inl ImportError, sk)"
  by (simp add: parse_url_def import_from_def urllib_parse_names_def)

text \<open>
  Claim C3: for every URL (and every network), \<^verbatim>\<open>SimpleWebSocket.connect\<close> raises, from
  \<^verbatim>\<open>_parse_url\<close>, before any socket is opened, and leaves the object as it was; on a fresh
  object \<open>connected\<close> is therefore still false.
\<close>

theorem connect_ws_always_raises:
  "parse_url sk = (Inl ImportError, sk)
   \<and> connect_ws nw sk = Some (Inl ImportError, sk)
   \<and> connect_ws nw (new_ws u) = Some (Inl ImportError, new_ws u)
   \<and> connected (new_ws u) = False"
  by (simp add: connect_ws_def parse_url_raises new_ws_def)

section \<open>ConnectionSupervisor: the outer loop\<close>

lemma connect_raises:
  "connect rt (connect_ws nw) m
     = Some (Inl ImportError,
             m\<lparr>effects := effects m @ [Log (LogConnecting (mempool_url (config m)))],
               ws := Some (new_ws (mempool_url (config m)))\<rparr>)"
  by (simp add: connect_def Let_def connect_ws_def parse_url_raises)

text \<open>
  Claim C2 (the loop runs until shut down): \<^verbatim>\<open>__init__\<close> leaves \<open>running\<close> false and only
  \<^verbatim>\<open>connect\<close>, called inside the loop, sets it. So \<^verbatim>\<open>run\<close> on a new monitor tests the flag
  once and returns, having written its two opening log lines and attempted no connection.
\<close>

theorem run_returns_at_once:
  "run (Suc n) rt w nw (new_monitor p cfg)
     = Some (Inr (), (new_monitor p cfg)\<lparr>effects := [Log LogStarting, Log (LogConfig p)]\<rparr>)"
  by (simp add: run_def new_monitor_def)

text \<open>
  Were the flag set (as it is after a successful \<^verbatim>\<open>connect\<close>), the loop would indeed not
  end: every attempt fails in \<^verbatim>\<open>_parse_url\<close>, is logged and followed by the pause, and no
  amount of fuel lets \<open>run_loop\<close> return.
\<close>

lemma run_loop_never_returns:
  "running m \<Longrightarrow> w_sleep w (reconnect_delay (config m)) = None \<Longrightarrow>
   run_loop n rt w (connect_ws nw) rcv m = None"
  by (induction n arbitrary: m) (simp_all add: connect_raises Let_def)

section \<open>RuleEngine: the \<^verbatim>\<open>contains\<close> operator\<close>

text \<open>The substring test is the usual one.\<close>

lemma is_prefix_iff: "is_prefix t s \<longleftrightarrow> (\<exists>q. s = t @ q)"
  by (induction t s rule: is_prefix.induct) auto

lemma is_substring_iff: "is_substring t s \<longleftrightarrow> (\<exists>p q. s = p @ t @ q)"
proof (induction s)
  case Nil
  then show ?case by auto
next
  case (Cons c s)
  show ?case
  proof
    assume "is_substring t (c # s)"
    then consider "is_prefix t (c # s)" | "is_substring t s" by auto
    then show "\<exists>p q. c # s = p @ t @ q"
    proof cases
      case 1
      then obtain q where "c # s = t @ q" by (auto simp: is_prefix_iff)
      then have "c # s = [] @ t @ q" by simp
      then show ?thesis by blast
    next
      case 2
      then obtain p q where "s = p @ t @ q" using Cons.IH by blast
      then have "c # s = (c # p) @ t @ q" by simp
      then show ?thesis by blast
    qed
  next
    assume "\<exists>p q. c # s = p @ t @ q"
    then obtain p q where pq: "c # s = p @ t @ q" by blast
    show "is_substring t (c # s)"
    proof (cases p)
      case Nil
      with pq have "is_prefix t (c # s)" by (auto simp: is_prefix_iff)
      then show ?thesis by simp
    next
      case (Cons a p')
      with pq have "s = p' @ t @ q" by simp
      then have "is_substring t s" using Cons.IH by blast
      then show ?thesis by simp
    qed
  qed
qed

text \<open>
  Claim C9, as the code has it: for a rule with operator \<^verbatim>\<open>contains\<close> whose field resolves
  to \<open>v\<close>, a string target \<open>t\<close> gives true exactly when \<open>t\<close> is a substring of \<^verbatim>\<open>str(v)\<close> for
  a truthy \<open>v\<close>, and of the empty string for every falsy \<open>v\<close> (absent, \<^verbatim>\<open>None\<close>, \<^verbatim>\<open>False\<close>,
  \<^verbatim>\<open>0\<close>, \<^verbatim>\<open>0.0\<close>, \<^verbatim>\<open>""\<close>, \<^verbatim>\<open>[]\<close>, \<^verbatim>\<open>{}\<close>); a target that is not a string raises
  \<^verbatim>\<open>TypeError\<close>.
\<close>

theorem contains_rule:
  assumes "dict_get_default rule ''operator'' (PStr ''=='') = PStr ''contains''"
    and "get_nested event_data (dict_get_default rule ''field'' (PStr [])) = Inr v"
  shows "evaluate_rule rt rule event_data =
           (case dict_get rule ''value'' of
              PStr t \<Rightarrow> Inr (is_substring t (if py_truthy v then py_str rt v else []))
            | _ \<Rightarrow> Inl TypeError)"
  using assms
  by (simp add: evaluate_rule_def Let_def py_in_str_def split: pyval.splits)

text \<open>
  The theorem at a rule \<^verbatim>\<open>{"field": "a.b", "operator": "contains", "value": "mp"}\<close> and the
  event \<^verbatim>\<open>{"a": {"b": "mempool"}}\<close>.
\<close>

theorem contains_rule_witness:
  "dict_get_default (rule_contains ''a.b'' ''mp'') ''operator'' (PStr ''=='') = PStr ''contains''
   \<and> get_nested (PDict [(''a'', PDict [(''b'', PStr ''mempool'')])])
         (dict_get_default (rule_contains ''a.b'' ''mp'') ''field'' (PStr [])) = Inr (PStr ''mempool'')
   \<and> evaluate_rule sample_rt (rule_contains ''a.b'' ''mp'')
         (PDict [(''a'', PDict [(''b'', PStr ''mempool'')])]) = Inr True"
  using contains_rule [of "rule_contains ''a.b'' ''mp''"
          "PDict [(''a'', PDict [(''b'', PStr ''mempool'')])]" "PStr ''mempool''" sample_rt]
  by (simp add: rule_contains_def dict_get_default_def dict_get_def get_nested_def)

text \<open>
  Claim C9 as the spec words it fails on the event \<^verbatim>\<open>{"n": 0}\<close> with the target \<^verbatim>\<open>"0"\<close>:
  the field is present and resolves to \<^verbatim>\<open>0\<close>, whose string form \<^verbatim>\<open>"0"\<close> contains the target,
  and \<^verbatim>\<open>evaluate_rule\<close> returns false.
\<close>

theorem contains_zero_counterexample:
  "get_nested (PDict [(''n'', PInt 0)])
       (dict_get_default (rule_contains ''n'' ''0'') ''field'' (PStr [])) = Inr (PInt 0)
   \<and> contains_spec sample_rt (dict_get (rule_contains ''n'' ''0'') ''value'') (PInt 0) = True
   \<and> evaluate_rule sample_rt (rule_contains ''n'' ''0'') (PDict [(''n'', PInt 0)]) = Inr False"
  by (simp add: rule_contains_def dict_get_default_def dict_get_def get_nested_def
        contains_spec_def show_int_def show_nat.simps [of 0] digit_char_def
        evaluate_rule_def Let_def py_in_str_def)

text \<open>A target that is not a string is not turned into one: \<^verbatim>\<open>5 in "5"\<close> raises.\<close>

lemma contains_int_target_raises:
  "evaluate_rule sample_rt
     [(''field'', PStr ''n''), (''operator'', PStr ''contains''), (''value'', PInt 5)]
     (PDict [(''n'', PStr ''5'')]) = Inl TypeError"
  by (simp add: dict_get_default_def dict_get_def get_nested_def
        evaluate_rule_def Let_def py_in_str_def)

section \<open>\<^verbatim>\<open>handle_event\<close>: evaluation errors and dispatch\<close>

text \<open>
  The module \<^verbatim>\<open>datetime\<close> has no attribute \<^verbatim>\<open>now\<close>: building the payload raises, inside
  the \<^verbatim>\<open>try\<close>, before \<^verbatim>\<open>send_webhook\<close> is entered.
\<close>

lemma fire_raises: "fire rt w cfg rule event_type event_data fx = (Inl AttributeError, fx)"
  by (simp add: fire_def timestamp_now_def module_attr_def datetime_module_names_def)


text \<open>
  Dispatch is isolated: the only exceptions that leave the loop over the rules are those of
  \<^verbatim>\<open>evaluate_rule\<close>, and all the loop adds to the effects is one \<^verbatim>\<open>[TRIGGER]\<close> line per
  matched rule.
\<close>

lemma handle_rules_error_is_rule_error:
  "handle_rules rt w cfg et ed rules fx = (Inl e, fx') \<Longrightarrow>
   \<exists>r \<in> set rules. evaluate_rule rt r ed = Inl e"
  by (induction rules arbitrary: fx) (auto simp: fire_raises split: if_splits sum.splits)

lemma handle_rules_effects:
  "\<exists>names. snd (handle_rules rt w cfg et ed rules fx) = fx @ map (\<lambda>n. Log (LogTrigger n)) names"
proof (induction rules arbitrary: fx)
  case Nil
  have "fx = fx @ map (\<lambda>n. Log (LogTrigger n)) []" by simp
  then show ?case by (metis handle_rules.simps(1) snd_conv)
next
  case (Cons r rules)
  show ?case
  proof (cases "py_eq (dict_get r ''event'') (PStr et)")
    case False
    then show ?thesis using Cons.IH [of fx] by simp
  next
    case True
    show ?thesis
    proof (cases "evaluate_rule rt r ed")
      case (Inl e)
      have "fx = fx @ map (\<lambda>n. Log (LogTrigger n)) []" by simp
      with True Inl show ?thesis by (metis handle_rules.simps(2) sum.simps(5) snd_conv)
    next
      case (Inr b)
      show ?thesis
      proof (cases b)
        case False
        with True Inr show ?thesis using Cons.IH [of fx] by simp
      next
        case b: True
        obtain names where
          "snd (handle_rules rt w cfg et ed rules (fx @ [Log (LogTrigger (dict_get r ''name''))]))
             = (fx @ [Log (LogTrigger (dict_get r ''name''))]) @ map (\<lambda>n. Log (LogTrigger n)) names"
          using Cons.IH by blast
        then have "snd (handle_rules rt w cfg et ed (r # rules) fx)
             = fx @ map (\<lambda>n. Log (LogTrigger n)) (dict_get r ''name'' # names)"
          using True Inr b by (simp add: fire_raises)
        then show ?thesis by blast
      qed
    qed
  qed
qed

lemmas rule_defs =
  rule_tall_def rule_seen_def height5_def rule_on_def cfg_with_def hook_local_def
  sample_rt_def sample_world_def
  handle_event_def evaluate_rule_def get_nested_def dict_get_def dict_get_default_def
  num_compare_def py_in_str_def fire_raises Let_def

lemma ev_tall: "evaluate_rule sample_rt rule_tall height5 = Inl ValueError"
  by (simp add: rule_defs)



text \<open>
  As the source stands, \<^verbatim>\<open>recv\<close> returns no text, so the loop body never gets as far as the
  router: it leaves the effects alone, and raises only what \<^verbatim>\<open>recv\<close> raises.
\<close>

lemma pump_recv_ws_effects: "effects (snd (pump recv_ws rt w m)) = effects m"
proof (cases "ws m")
  case None
  then show ?thesis by (simp add: pump_def)
next
  case (Some sk)
  obtain r sk' where r: "recv_ws sk = (r, sk')" by (cases "recv_ws sk")
  show ?thesis
  proof (cases r)
    case (Inl e)
    with Some r show ?thesis by (simp add: pump_def)
  next
    case (Inr msg)
    with r have "msg = []" using recv_ws_no_text [of sk msg] by simp
    with Some r Inr show ?thesis by (simp add: pump_def)
  qed
qed

lemma pump_recv_ws_error:
  "fst (pump recv_ws rt w m) = Inl e \<Longrightarrow>
   (ws m = None \<and> e = AttributeError) \<or> (\<exists>sk. ws m = Some sk \<and> fst (recv_ws sk) = Inl e)"
proof (cases "ws m")
  case None
  assume "fst (pump recv_ws rt w m) = Inl e"
  with None show ?thesis by (simp add: pump_def)
next
  case (Some sk)
  assume a: "fst (pump recv_ws rt w m) = Inl e"
  obtain r sk' where r: "recv_ws sk = (r, sk')" by (cases "recv_ws sk")
  show ?thesis
  proof (cases r)
    case (Inl e')
    with Some r a show ?thesis by (simp add: pump_def)
  next
    case (Inr msg)
    with r have "msg = []" using recv_ws_no_text [of sk msg] by simp
    with Some r Inr a show ?thesis by (simp add: pump_def)
  qed
qed




text \<open>
  Claim C6 (the endpoint of a matched rule is invoked): on the code it is not. With the
  endpoint \<^verbatim>\<open>hook\<close> configured and a rule that matches the event, \<^verbatim>\<open>handle_event\<close> writes the
  \<^verbatim>\<open>[TRIGGER]\<close> line and nothing else: no HTTP request is issued.
\<close>

theorem matched_rule_sends_nothing:
  "handle_event sample_rt sample_world
     (cfg_with [hook_local] [rule_on ''new block'' ''blocks'' ''exists'' ''hook''])
     ''block'' (PDict [(''blocks'', PList [PInt 1])]) []
   = (Inr (), [Log (LogTrigger (PStr ''new block''))])"
  by (simp add: rule_defs)

text \<open>
  Claim C10 (a missing endpoint is reported and skipped, and the following rules are still
  evaluated): the second rule is evaluated, and nothing propagates, but the missing endpoint
  of the first is not reported, although \<^verbatim>\<open>send_webhook\<close>, called with that name, does
  report it.
\<close>

theorem missing_endpoint_not_reported:
  "handle_event sample_rt sample_world
     (cfg_with [hook_local]
        [rule_on ''first'' ''blocks'' ''exists'' ''nowhere'',
         rule_on ''second'' ''blocks'' ''exists'' ''hook''])
     ''block'' (PDict [(''blocks'', PList [PInt 1])]) []
   = (Inr (), [Log (LogTrigger (PStr ''first'')), Log (LogTrigger (PStr ''second''))])
   \<and> send_webhook sample_rt sample_world (cfg_with [hook_local] []) (PStr ''nowhere'') payload []
   = (Inr (), [Log (LogWebhookNotFound (PStr ''nowhere''))])"
  by (simp add: rule_defs send_webhook_def dict_get_val_def)

section \<open>EventRouter\<close>

lemma route_absent:
  "set (map fst em) \<inter> fst ` set d = {} \<Longrightarrow> route rt w cfg em (PDict d) fx = (Inr (), fx)"
  by (induction em) (auto simp: py_contains_def)

text \<open>
  Claim C8, as the code has it: the keys of the category map are \<^verbatim>\<open>blocks\<close>, \<^verbatim>\<open>mempool\<close>,
  \<^verbatim>\<open>txs\<close> and \<^verbatim>\<open>transactions\<close>. The message \<^verbatim>\<open>{"blocks": [...]}\<close> is routed as category
  \<^verbatim>\<open>block\<close> with payload \<^verbatim>\<open>{"blocks": [...]}\<close>, and a message object none of whose top-level
  keys is in the map produces no routed event.
\<close>

theorem route_blocks:
  "route rt w cfg EVENT_MAP (PDict [(''blocks'', PList xs)]) fx
     = handle_event rt w cfg ''block'' (PDict [(''blocks'', PList xs)]) fx
   \<and> (set (map fst EVENT_MAP) \<inter> fst ` set d = {}
        \<longrightarrow> route rt w cfg EVENT_MAP (PDict d) fx = (Inr (), fx))"
proof -
  obtain r fx' where
    h: "handle_event rt w cfg ''block'' (PDict [(''blocks'', PList xs)]) fx = (r, fx')"
    by (cases "handle_event rt w cfg ''block'' (PDict [(''blocks'', PList xs)]) fx")
  have "route rt w cfg EVENT_MAP (PDict [(''blocks'', PList xs)]) fx = (r, fx')"
    using h
    by (cases r) (simp_all add: EVENT_MAP_def py_contains_def py_getitem_def event_payload_def)
  with h show ?thesis using route_absent by simp
qed

text \<open>
  The theorem at the messages \<^verbatim>\<open>{"blocks": [1]}\<close> and \<^verbatim>\<open>{"block": [1]}\<close>, with a rule that
  fires when the field \<^verbatim>\<open>blocks\<close> is there.
\<close>

theorem route_blocks_witness:
  "set (map fst EVENT_MAP) \<inter> fst ` set [(''block'', PList [PInt 1])] = {}
   \<and> route sample_rt sample_world (cfg_with [] [rule_on ''any'' ''blocks'' ''exists'' ''hook''])
       EVENT_MAP (PDict [(''blocks'', PList [PInt 1])]) []
     = (Inr (), [Log (LogTrigger (PStr ''any''))])
   \<and> route sample_rt sample_world (cfg_with [] [rule_on ''any'' ''blocks'' ''exists'' ''hook''])
       EVENT_MAP (PDict [(''block'', PList [PInt 1])]) [] = (Inr (), [])"
  using route_blocks [of sample_rt sample_world
          "cfg_with [] [rule_on ''any'' ''blocks'' ''exists'' ''hook'']" "[PInt 1]" "[]"
          "[(''block'', PList [PInt 1])]"]
  by (simp add: rule_defs EVENT_MAP_def)

text \<open>
  Claim C8 as the spec words it fails on the message \<^verbatim>\<open>{"block": [1]}\<close>: the router hands
  nothing to \<^verbatim>\<open>handle_event\<close>, whereas routing it as category \<^verbatim>\<open>block\<close> with payload
  \<^verbatim>\<open>{"block": [1]}\<close> would fire the rule below.
\<close>

theorem route_block_counterexample:
  "route sample_rt sample_world (cfg_with [] [rule_on ''any'' ''block'' ''exists'' ''hook''])
     EVENT_MAP (PDict [(''block'', PList [PInt 1])]) [] = (Inr (), [])
   \<and> handle_event sample_rt sample_world (cfg_with [] [rule_on ''any'' ''block'' ''exists'' ''hook''])
       ''block'' (PDict [(''block'', PList [PInt 1])]) []
     = (Inr (), [Log (LogTrigger (PStr ''any''))])"
  by (simp add: rule_defs EVENT_MAP_def py_contains_def)

section \<open>Subscriptions across reconnects\<close>

lemma reconnect_first:
  "reconnect block_monitor =
     Some (block_monitor\<lparr>
       ws := Some (connected_ws ''wss://mempool.space/api/v1/ws''
                     ((socket_with [])\<lparr>sent := [0x81, 37] @ encode_utf8 want_block_json\<rparr>)),
       running := True,
       subscriptions := [PStr ''block''],
       effects := [Log (LogConnecting ''wss://mempool.space/api/v1/ws''), Log LogConnected,
                   Log (LogSub (PStr ''block''))]\<rparr>)"
  by (simp add: reconnect_def block_monitor_def connect_def handshake_ok_def new_monitor_def
        cfg_with_def rule_on_def Let_def dict_get_def py_mem_def subscribe_def sample_rt_def
        want_block_def want_block_json_def send_ws_def new_ws_def connected_ws_def socket_with_def
        frame_header_def sock_send_def encode_utf8_def)

text \<open>
  Claim C7 (the subscription set is reset on every new connection, so every category is
  requested again on every reconnect): on the code, with a handshake that succeeds, the
  first \<^verbatim>\<open>connect\<close> writes the request for \<^verbatim>\<open>block\<close> and records the category; the second
  \<^verbatim>\<open>connect\<close> finds it recorded and writes nothing on the new stream. (With the handshake
  of the source, which raises, not even the first connection gets its request.)
\<close>

theorem reconnect_sends_no_subscription:
  "map_option frames_sent (reconnect block_monitor)
     = Some ([0x81, 37] @ encode_utf8 want_block_json)
   \<and> map_option subscriptions (reconnect block_monitor) = Some [PStr ''block'']
   \<and> map_option frames_sent (Option.bind (reconnect block_monitor) reconnect) = Some []
   \<and> map_option subscriptions (Option.bind (reconnect block_monitor) reconnect)
     = Some [PStr ''block'']
   \<and> map_option (\<lambda>(r, m). (r, frames_sent m)) (connect sample_rt (connect_ws nw) block_monitor)
     = Some (Inl ImportError, [])"
  by (simp add: reconnect_first connect_raises)
     (simp add: reconnect_def block_monitor_def connect_def handshake_ok_def new_monitor_def
        cfg_with_def rule_on_def Let_def dict_get_def py_mem_def subscribe_def sample_rt_def
        new_ws_def connected_ws_def socket_with_def frames_sent_def)

end
